theory Spec2Isabelle
  imports Main
begin

section \<open>Values, errors and replies\<close>

text \<open>
  The server (\<^verbatim>\<open>src/server.js\<close>) has three POST handlers and one error middleware.
  Everything a handler does beyond computing its reply is explicit here: the calls to the
  completion service are returned as a log of prompts, the upload directory is a map from
  paths to file contents that handlers take and return, and every exception of the
  source is a value of type \<open>jserror\<close>.
\<close>

text \<open>
  A property of a parsed JSON body, as far as the handlers look at it: they test it with
  \<^verbatim>\<open>!v\<close> and interpolate it into a template literal. The falsy values a JSON body can
  hold are listed one by one (an absent property reads as \<^verbatim>\<open>undefined\<close>; \<open>JZero\<close> is
  \<^verbatim>\<open>0\<close> and \<^verbatim>\<open>-0\<close>); \<open>JTruthy r\<close> is any other non-string value (\<^verbatim>\<open>true\<close>, a non-zero
  number, an array, an object), all of them truthy, with \<open>r\<close> the string that
  interpolation renders it as.
\<close>

datatype jsval = JUndefined | JNull | JFalse | JZero | JString string | JTruthy string

fun truthy :: "jsval \<Rightarrow> bool" where
  "truthy JUndefined = False"
| "truthy JNull = False"
| "truthy JFalse = False"
| "truthy JZero = False"
| "truthy (JString s) = (s \<noteq> [])"
| "truthy (JTruthy r) = True"

text \<open>What \<^verbatim>\<open>${v}\<close> inserts into a template literal.\<close>

fun js_to_string :: "jsval \<Rightarrow> string" where
  "js_to_string JUndefined = ''undefined''"
| "js_to_string JNull = ''null''"
| "js_to_string JFalse = ''false''"
| "js_to_string JZero = ''0''"
| "js_to_string (JString s) = s"
| "js_to_string (JTruthy r) = r"

text \<open>A thrown error; the handlers read only its \<^verbatim>\<open>message\<close>.\<close>

datatype jserror = JsError (err_message: string)

text \<open>
  One entry of \<^verbatim>\<open>processedFiles\<close>. The source pushes two shapes of object literal,
  \<^verbatim>\<open>{filename, content, size}\<close> and \<^verbatim>\<open>{filename, error}\<close>; a key the literal does not
  have is \<open>None\<close>.
\<close>

record processed_file =
  filename :: string
  content :: "string option"
  entry_size :: "nat option"
  error :: "string option"

text \<open>
  The JSON bodies the server sends. In \<open>ErrorBody e d\<close> the second field is the
  \<^verbatim>\<open>details\<close> key: \<open>None\<close> when the source sets it to \<^verbatim>\<open>undefined\<close>, which
  \<^verbatim>\<open>res.json\<close> leaves out of the body.
\<close>

datatype json_body =
    ErrorBody string "string option"
  | DocumentBody string
  | ChatBody string string
  | UploadBody bool string "processed_file list"

record reply =
  status :: nat
  body :: json_body

text \<open>\<^verbatim>\<open>process.env.NODE_ENV\<close>: unset, or a string.\<close>

type_synonym node_env = "string option"

text \<open>
  The completion collaborator: \<^verbatim>\<open>model.generateContent(prompt)\<close>, then
  \<^verbatim>\<open>result.response\<close> and \<^verbatim>\<open>response.text()\<close>, taken together as one call that
  returns the text or throws.
\<close>

type_synonym completion = "string \<Rightarrow> jserror + string"

section \<open>Document generation and chat\<close>

text \<open>
  \<^verbatim>\<open>req.body\<close> as \<^verbatim>\<open>express.json()\<close> parsed it: an object, read at the keys the handler
  destructures. A key the body does not have reads as \<open>JUndefined\<close>.
\<close>

record generate_body =
  documentType :: jsval
  details :: jsval

record chat_body =
  message :: jsval

text \<open>The template literal of lines 66 to 78, with its line breaks and indentation.\<close>

definition generate_document_prompt :: "string \<Rightarrow> string \<Rightarrow> string" where
  "generate_document_prompt dt d =
     ''\<newline>'' @
     ''            Generate a professional '' @ dt @ '' following Indian legal standards.\<newline>'' @
     ''            \<newline>'' @
     ''            Details provided:\<newline>'' @
     ''            '' @ d @ ''\<newline>'' @
     ''            \<newline>'' @
     ''            Requirements:\<newline>'' @
     ''            1. Follow Indian legal format\<newline>'' @
     ''            2. Include all necessary clauses\<newline>'' @
     ''            3. Use formal legal language\<newline>'' @
     ''            4. Ensure compliance with Indian laws\<newline>'' @
     ''            5. Include jurisdiction under Indian courts\<newline>'' @
     ''        ''"

text \<open>The template literal of lines 108 to 120.\<close>

definition chat_prompt :: "string \<Rightarrow> string" where
  "chat_prompt m =
     ''\<newline>'' @
     ''            You are an expert Indian legal assistant. Provide a clear and helpful response to this question: '' @
       [CHR 0x22] @ m @ [CHR 0x22] @ ''\<newline>'' @
     ''\<newline>'' @
     ''            Guidelines:\<newline>'' @
     ''            1. Use simple, clear language\<newline>'' @
     ''            2. Reference specific Indian laws and regulations\<newline>'' @
     ''            3. Include relevant legal precedents if applicable\<newline>'' @
     ''            4. Suggest consulting a lawyer for complex matters\<newline>'' @
     ''            5. Structure the response clearly\<newline>'' @
     ''            6. Keep it concise but informative\<newline>'' @
     ''\<newline>'' @
     ''            Important: Always include a disclaimer that this is general information and not legal advice.\<newline>'' @
     ''        ''"

text \<open>
  The catch blocks. Each answers 500 with a fixed message; \<^verbatim>\<open>details\<close> is the error's
  message when \<^verbatim>\<open>NODE_ENV\<close> is \<^verbatim>\<open>'development'\<close> and \<^verbatim>\<open>undefined\<close> otherwise.
\<close>

definition generate_document_catch :: "node_env \<Rightarrow> jserror \<Rightarrow> reply" where
  "generate_document_catch env e =
     \<lparr>status = 500,
      body = ErrorBody ''Failed to generate document''
        (if env = Some ''development'' then Some (err_message e) else None)\<rparr>"

definition chat_catch :: "node_env \<Rightarrow> jserror \<Rightarrow> reply" where
  "chat_catch env e =
     \<lparr>status = 500,
      body = ErrorBody ''Failed to process your question. Please try again.''
        (if env = Some ''development'' then Some (err_message e) else None)\<rparr>"

text \<open>The error middleware of lines 191 to 197.\<close>

definition error_middleware :: "node_env \<Rightarrow> jserror \<Rightarrow> reply" where
  "error_middleware env e =
     \<lparr>status = 500,
      body = ErrorBody ''Internal server error''
        (if env = Some ''development'' then Some (err_message e) else None)\<rparr>"

text \<open>
  \<^verbatim>\<open>POST /generate-document\<close>. The result is the reply and the prompts passed to the
  completion service, in order. A reply sent with \<^verbatim>\<open>res.json\<close> alone has status 200.
\<close>

definition generate_document ::
  "node_env \<Rightarrow> completion \<Rightarrow> generate_body \<Rightarrow> reply \<times> string list" where
  "generate_document env generateContent b =
     (if \<not> truthy (documentType b) \<or> \<not> truthy (details b)
      then (\<lparr>status = 400, body = ErrorBody ''Document type and details are required'' None\<rparr>, [])
      else
        let prompt = generate_document_prompt (js_to_string (documentType b))
                       (js_to_string (details b))
        in (case generateContent prompt of
              Inr text \<Rightarrow> (\<lparr>status = 200, body = DocumentBody text\<rparr>, [prompt])
            | Inl e \<Rightarrow> (generate_document_catch env e, [prompt])))"

text \<open>\<^verbatim>\<open>POST /chat\<close>.\<close>

definition chat :: "node_env \<Rightarrow> completion \<Rightarrow> chat_body \<Rightarrow> reply \<times> string list" where
  "chat env generateContent b =
     (if \<not> truthy (message b)
      then (\<lparr>status = 400, body = ErrorBody ''Message is required'' None\<rparr>, [])
      else
        let prompt = chat_prompt (js_to_string (message b))
        in (case generateContent prompt of
              Inr text \<Rightarrow> (\<lparr>status = 200, body = ChatBody text ''success''\<rparr>, [prompt])
            | Inl e \<Rightarrow> (chat_catch env e, [prompt])))"

section \<open>File upload\<close>

text \<open>
  The file object multer hands to the handler (the fields the source reads;
  \<open>file_size\<close> is \<^verbatim>\<open>file.size\<close>).
\<close>

record uploaded_file =
  originalname :: string
  mimetype :: string
  path :: string
  file_size :: nat

text \<open>
  The multer configuration of lines 33 to 47. \<open>fileFilter\<close> reads only
  \<^verbatim>\<open>file.mimetype\<close>, which is its argument here; \<open>Inr True\<close> is \<^verbatim>\<open>cb(null, true)\<close>
  and \<open>Inl\<close> is \<^verbatim>\<open>cb(new Error(...))\<close>. \<open>fileSize\<close> is \<^verbatim>\<open>limits.fileSize\<close>.
\<close>

definition fileFilter :: "string \<Rightarrow> jserror + bool" where
  "fileFilter mt =
     (if mt = ''application/pdf'' \<or>
         mt = ''application/msword'' \<or>
         mt = ''application/vnd.openxmlformats-officedocument.wordprocessingml.document''
      then Inr True
      else Inl (JsError ''Only PDF and Word documents are allowed!''))"

definition fileSize :: nat where
  "fileSize = 5 * 1024 * 1024"

text \<open>
  The upload directory: a map from paths to the bytes stored there.
  \<^verbatim>\<open>fs.readFile\<close> and \<^verbatim>\<open>fs.unlink\<close> throw when the path has no file.
\<close>

type_synonym buffer = string
type_synonym disk = "string \<rightharpoonup> buffer"

definition readFile :: "disk \<Rightarrow> string \<Rightarrow> jserror + buffer" where
  "readFile fs p =
     (case fs p of
        None \<Rightarrow> Inl (JsError (''ENOENT: no such file or directory, open '' @ [CHR 0x27] @ p @ [CHR 0x27]))
      | Some data \<Rightarrow> Inr data)"

definition unlink :: "disk \<Rightarrow> string \<Rightarrow> jserror + disk" where
  "unlink fs p =
     (case fs p of
        None \<Rightarrow> Inl (JsError (''ENOENT: no such file or directory, unlink '' @ [CHR 0x27] @ p @ [CHR 0x27]))
      | Some data \<Rightarrow> Inr (fs(p := None)))"

text \<open>
  The text extraction collaborator \<^verbatim>\<open>pdf(dataBuffer)\<close>, read at \<^verbatim>\<open>.text\<close>: the
  extracted text, or a thrown error.
\<close>

type_synonym pdf_parse = "buffer \<Rightarrow> jserror + string"

text \<open>Lines 151 to 156: \<^verbatim>\<open>content\<close> starts empty and only a PDF is read and parsed.\<close>

definition extract_content :: "pdf_parse \<Rightarrow> disk \<Rightarrow> uploaded_file \<Rightarrow> jserror + string" where
  "extract_content pdf fs file =
     (if mimetype file = ''application/pdf''
      then (case readFile fs (path file) of
              Inl e \<Rightarrow> Inl e
            | Inr dataBuffer \<Rightarrow>
                (case pdf dataBuffer of Inl e \<Rightarrow> Inl e | Inr text \<Rightarrow> Inr text))
      else Inr [])"

text \<open>
  The state of the per-file loop: \<^verbatim>\<open>processedFiles\<close> and the upload directory.
  \<open>file_try\<close> is the try block of lines 150 to 165. It returns the error it threw, if
  any, with the state at that point: what the block did before throwing stays done.
\<close>

type_synonym upload_state = "processed_file list \<times> disk"

definition file_try ::
  "pdf_parse \<Rightarrow> uploaded_file \<Rightarrow> upload_state \<Rightarrow> jserror option \<times> upload_state" where
  "file_try pdf file st =
     (case st of (processedFiles, fs) \<Rightarrow>
        (case extract_content pdf fs file of
           Inl e \<Rightarrow> (Some e, (processedFiles, fs))
         | Inr c \<Rightarrow>
             let pushed = processedFiles @
                   [\<lparr>filename = originalname file, content = Some c,
                     entry_size = Some (file_size file), error = None\<rparr>]
             in (case unlink fs (path file) of
                   Inl e \<Rightarrow> (Some e, (pushed, fs))
                 | Inr fs' \<Rightarrow> (None, (pushed, fs')))))"

text \<open>The catch block of lines 166 to 172.\<close>

definition file_catch :: "uploaded_file \<Rightarrow> upload_state \<Rightarrow> upload_state" where
  "file_catch file st =
     (case st of (processedFiles, fs) \<Rightarrow>
        (processedFiles @
           [\<lparr>filename = originalname file, content = None, entry_size = None,
             error = Some ''Failed to process file''\<rparr>], fs))"

definition process_file :: "pdf_parse \<Rightarrow> uploaded_file \<Rightarrow> upload_state \<Rightarrow> upload_state" where
  "process_file pdf file st =
     (case file_try pdf file st of
        (None, st') \<Rightarrow> st'
      | (Some e, st') \<Rightarrow> file_catch file st')"

text \<open>The loop \<^verbatim>\<open>for (const file of req.files)\<close>.\<close>

primrec process_files :: "pdf_parse \<Rightarrow> uploaded_file list \<Rightarrow> upload_state \<Rightarrow> upload_state" where
  "process_files pdf [] st = st"
| "process_files pdf (file # files) st = process_files pdf files (process_file pdf file st)"

text \<open>
  The handler's own catch block, lines 181 to 188. It does not read \<^verbatim>\<open>NODE_ENV\<close>.
\<close>

definition upload_catch :: "jserror \<Rightarrow> reply" where
  "upload_catch e =
     \<lparr>status = 500, body = ErrorBody ''Failed to process files'' (Some (err_message e))\<rparr>"

text \<open>
  \<^verbatim>\<open>res.json(body)\<close> at line 175, inside the handler's try: \<open>None\<close> when it returns,
  \<open>Some e\<close> when it throws \<open>e\<close> (serialising a body that holds the text of every file
  of the batch can fail). Every other \<^verbatim>\<open>res.json\<close> of the server, with a fixed error
  body or with the completion's text, is taken to return.
\<close>

type_synonym res_json = "json_body \<Rightarrow> jserror option"

text \<open>
  \<^verbatim>\<open>POST /upload-training-files\<close>, after multer has stored the accepted files:
  \<^verbatim>\<open>req.files\<close> is \<open>None\<close> when multer did not set it. The result is the reply and
  the upload directory as the handler leaves it. Reading, parsing and unlinking throw
  into the per-file catch; \<^verbatim>\<open>res.json\<close> at line 175 throws into the handler's own
  catch, \<open>upload_catch\<close>, after the loop has run.
\<close>

definition upload_training_files ::
  "pdf_parse \<Rightarrow> res_json \<Rightarrow> disk \<Rightarrow> uploaded_file list option \<Rightarrow> reply \<times> disk" where
  "upload_training_files pdf json fs files =
     (case files of
        None \<Rightarrow> (\<lparr>status = 400, body = ErrorBody ''No files uploaded'' None\<rparr>, fs)
      | Some fl \<Rightarrow>
          if length fl = 0
          then (\<lparr>status = 400, body = ErrorBody ''No files uploaded'' None\<rparr>, fs)
          else (case process_files pdf fl ([], fs) of
                  (processedFiles, fs') \<Rightarrow>
                    (case json (UploadBody True ''Files processed successfully'' processedFiles) of
                       None \<Rightarrow>
                         (\<lparr>status = 200,
                           body = UploadBody True ''Files processed successfully''
                                    processedFiles\<rparr>,
                          fs')
                     | Some e \<Rightarrow> (upload_catch e, fs'))))"

section \<open>Properties\<close>

subsection \<open>Helper lemmas\<close>

text \<open>
  The templates start with a line break, so a prompt is never empty.
\<close>

lemma generate_document_prompt_nonempty: "generate_document_prompt dt d \<noteq> []"
  by (simp add: generate_document_prompt_def)

lemma chat_prompt_nonempty: "chat_prompt m \<noteq> []"
  by (simp add: chat_prompt_def)

text \<open>
  The prompts a handler sends depend on the request body alone.
\<close>

lemma prompts_sent_generate:
  "snd (generate_document env gen b) =
     (if \<not> truthy (documentType b) \<or> \<not> truthy (details b) then []
      else [generate_document_prompt (js_to_string (documentType b)) (js_to_string (details b))])"
  by (simp add: generate_document_def Let_def split: sum.splits)

lemma prompts_sent_chat:
  "snd (chat env gen c) =
     (if \<not> truthy (message c) then [] else [chat_prompt (js_to_string (message c))])"
  by (simp add: chat_def Let_def split: sum.splits)

text \<open>
  The validation branches, for every falsy field.
\<close>

lemma generate_document_falsy:
  "\<not> truthy (documentType b) \<or> \<not> truthy (details b) \<Longrightarrow>
   generate_document env gen b =
     (\<lparr>status = 400, body = ErrorBody ''Document type and details are required'' None\<rparr>, [])"
  by (simp add: generate_document_def)

lemma chat_falsy:
  "\<not> truthy (message c) \<Longrightarrow>
   chat env gen c = (\<lparr>status = 400, body = ErrorBody ''Message is required'' None\<rparr>, [])"
  by (simp add: chat_def)

text \<open>
  Outside development mode the three gated catch blocks send the fixed message alone.
\<close>

lemma gated_catches:
  "env \<noteq> Some ''development'' \<Longrightarrow>
   generate_document_catch env e =
     \<lparr>status = 500, body = ErrorBody ''Failed to generate document'' None\<rparr> \<and>
   chat_catch env e =
     \<lparr>status = 500, body = ErrorBody ''Failed to process your question. Please try again.'' None\<rparr> \<and>
   error_middleware env e = \<lparr>status = 500, body = ErrorBody ''Internal server error'' None\<rparr>"
  by (simp add: generate_document_catch_def chat_catch_def error_middleware_def)

text \<open>
  The per-file step and the loop only append to \<^verbatim>\<open>processedFiles\<close>: what they add does
  not depend on the entries already there.
\<close>

lemma process_file_acc:
  "process_file pdf f (acc, fs) =
     (acc @ fst (process_file pdf f ([], fs)), snd (process_file pdf f ([], fs)))"
  by (simp add: process_file_def file_try_def file_catch_def Let_def split: sum.splits)

lemma process_files_acc:
  "process_files pdf fl (acc, fs) =
     (acc @ fst (process_files pdf fl ([], fs)), snd (process_files pdf fl ([], fs)))"
proof (induction fl arbitrary: acc fs)
  case Nil
  show ?case by simp
next
  case (Cons f fl)
  obtain es fs1 where one: "process_file pdf f ([], fs) = (es, fs1)"
    by (cases "process_file pdf f ([], fs)")
  have step: "process_file pdf f (acc, fs) = (acc @ es, fs1)"
    using process_file_acc [of pdf f acc fs] one by simp
  show ?case
    using Cons.IH [of "acc @ es" fs1] Cons.IH [of es fs1] by (simp add: step one)
qed

lemma process_files_append:
  "process_files pdf (xs @ ys) st = process_files pdf ys (process_files pdf xs st)"
  by (induction xs arbitrary: st) simp_all

lemma process_file_extract_fails:
  "extract_content pdf fs f = Inl e \<Longrightarrow>
   process_file pdf f (acc, fs) =
     (acc @ [\<lparr>filename = originalname f, content = None, entry_size = None,
              error = Some ''Failed to process file''\<rparr>], fs)"
  by (simp add: process_file_def file_try_def file_catch_def)

lemma upload_nonempty:
  "fl \<noteq> [] \<Longrightarrow>
   upload_training_files pdf json fs (Some fl) =
     (case json (UploadBody True ''Files processed successfully''
                   (fst (process_files pdf fl ([], fs)))) of
        None \<Rightarrow>
          \<lparr>status = 200,
           body = UploadBody True ''Files processed successfully''
                    (fst (process_files pdf fl ([], fs)))\<rparr>
      | Some e \<Rightarrow> upload_catch e,
      snd (process_files pdf fl ([], fs)))"
  by (simp add: upload_training_files_def split: prod.splits option.splits)

lemma upload_status:
  "status (fst (upload_training_files pdf json fs files)) =
     (case files of
        None \<Rightarrow> 400
      | Some fl \<Rightarrow>
          if fl = [] then 400
          else (case json (UploadBody True ''Files processed successfully''
                             (fst (process_files pdf fl ([], fs)))) of
                  None \<Rightarrow> 200
                | Some e \<Rightarrow> 500))"
  by (simp add: upload_training_files_def upload_catch_def split: prod.splits option.splits)

text \<open>
  Whenever the per-file try block throws, the catch block appends the same entry; when it
  is the extraction that threw, nothing was pushed before it.
\<close>

lemma file_catch_entry:
  assumes "fst (file_try pdf f (acc, fs)) = Some e"
  shows "fst (process_file pdf f (acc, fs)) =
           fst (snd (file_try pdf f (acc, fs))) @
             [\<lparr>filename = originalname f, content = None, entry_size = None,
               error = Some ''Failed to process file''\<rparr>]"
proof -
  obtain st where t: "file_try pdf f (acc, fs) = (Some e, st)"
    using assms by (cases "file_try pdf f (acc, fs)") simp
  obtain es fs' where st: "st = (es, fs')"
    by (cases st)
  show ?thesis
    by (simp add: process_file_def t st file_catch_def)
qed

text \<open>
  A file that is not a PDF is neither read nor parsed: its try block throws exactly when
  the unlink does.
\<close>

lemma word_file_try:
  "mimetype f \<noteq> ''application/pdf'' \<Longrightarrow>
   fst (file_try pdf f (acc, fs)) = None \<longleftrightarrow> fs (path f) \<noteq> None"
  by (auto simp: file_try_def extract_content_def unlink_def Let_def split: option.splits)

text \<open>
  The upload filter as the source configures it: the three accepted MIME types, the
  error for any other, and the size limit in bytes. (What multer does with a rejected
  file is multer's code, not the server's.)
\<close>

lemma fileFilter_accepts_iff:
  "fileFilter mt = Inr True \<longleftrightarrow>
     mt \<in> {''application/pdf'', ''application/msword'',
           ''application/vnd.openxmlformats-officedocument.wordprocessingml.document''}"
  by (simp add: fileFilter_def)

lemma fileFilter_rejects:
  "fileFilter mt \<noteq> Inr True \<Longrightarrow>
   fileFilter mt = Inl (JsError ''Only PDF and Word documents are allowed!'')"
  by (simp add: fileFilter_def split: if_splits)

lemma fileSize_bytes: "fileSize = 5242880"
  by (simp add: fileSize_def)

subsection \<open>Claims\<close>

text \<open>
  C1 (temp file deleted on every exit path). The source unlinks the temp file as the
  last statement of the per-file try block; the catch block does not. Here one PDF is
  uploaded, its temp file is on disk, the parser throws and the reply is sent: the
  handler answers 200 with the error entry and the temp file is still on disk afterwards.
\<close>

theorem failed_pdf_leaves_temp_file:
  "upload_training_files (\<lambda>b. Inl (JsError ''Invalid PDF structure'')) (\<lambda>b. None)
     [''uploads/files-1700000000000-42.pdf'' \<mapsto> ''not a pdf'']
     (Some [\<lparr>originalname = ''scan.pdf'', mimetype = ''application/pdf'',
              path = ''uploads/files-1700000000000-42.pdf'', file_size = 9\<rparr>]) =
     (\<lparr>status = 200,
       body = UploadBody True ''Files processed successfully''
         [\<lparr>filename = ''scan.pdf'', content = None, entry_size = None,
           error = Some ''Failed to process file''\<rparr>]\<rparr>,
      [''uploads/files-1700000000000-42.pdf'' \<mapsto> ''not a pdf''])"
  by (simp add: upload_training_files_def process_file_def file_try_def file_catch_def
      extract_content_def readFile_def)

text \<open>
  C2 (500 details only outside production). The upload handler's catch block puts the
  error's message into \<^verbatim>\<open>details\<close> whatever \<^verbatim>\<open>NODE_ENV\<close> is, so also in production;
  the error middleware, for the same error in production, sends the fixed message alone
  (as do the other two catch blocks, see \<open>gated_catches\<close>).
\<close>

theorem upload_catch_details_in_production:
  "upload_catch (JsError ''Invalid string length'') =
     \<lparr>status = 500,
      body = ErrorBody ''Failed to process files'' (Some ''Invalid string length'')\<rparr> \<and>
   error_middleware (Some ''production'') (JsError ''Invalid string length'') =
     \<lparr>status = 500, body = ErrorBody ''Internal server error'' None\<rparr>"
  by (simp add: upload_catch_def error_middleware_def)

text \<open>
  C3 (exactly one entry per uploaded file). The try block pushes the success entry
  before it unlinks; when the unlink throws, the catch block pushes a second entry for
  the same file. Here one Word file is uploaded and its temp file is no longer on disk:
  \<^verbatim>\<open>processedFiles\<close> has two entries for it. The same happens to the second of two
  files that the storage's \<^verbatim>\<open>filename\<close> function gave one name (same millisecond, same
  random number): the first file's unlink removes the shared temp file.
\<close>

theorem unlink_failure_pushes_second_entry:
  "fst (upload_training_files (\<lambda>b. Inl (JsError ''unused'')) (\<lambda>b. None) Map.empty
     (Some [\<lparr>originalname = ''brief.doc'', mimetype = ''application/msword'',
              path = ''uploads/files-1700000000000-42.doc'', file_size = 4\<rparr>])) =
     \<lparr>status = 200,
      body = UploadBody True ''Files processed successfully''
        [\<lparr>filename = ''brief.doc'', content = Some [], entry_size = Some 4, error = None\<rparr>,
         \<lparr>filename = ''brief.doc'', content = None, entry_size = None,
           error = Some ''Failed to process file''\<rparr>]\<rparr> \<and>
   fst (upload_training_files (\<lambda>b. Inl (JsError ''unused'')) (\<lambda>b. None)
     [''uploads/files-1700000000000-42.doc'' \<mapsto> ''wxyz'']
     (Some [\<lparr>originalname = ''one.doc'', mimetype = ''application/msword'',
              path = ''uploads/files-1700000000000-42.doc'', file_size = 4\<rparr>,
            \<lparr>originalname = ''two.doc'', mimetype = ''application/msword'',
              path = ''uploads/files-1700000000000-42.doc'', file_size = 4\<rparr>])) =
     \<lparr>status = 200,
      body = UploadBody True ''Files processed successfully''
        [\<lparr>filename = ''one.doc'', content = Some [], entry_size = Some 4, error = None\<rparr>,
         \<lparr>filename = ''two.doc'', content = Some [], entry_size = Some 4, error = None\<rparr>,
         \<lparr>filename = ''two.doc'', content = None, entry_size = None,
           error = Some ''Failed to process file''\<rparr>]\<rparr>"
  by (simp add: upload_training_files_def process_file_def file_try_def file_catch_def
      extract_content_def unlink_def)

text \<open>
  C4 (per-file failures are isolated; 200 unless the handler itself fails). Let a batch
  have the files \<open>xs\<close>, then \<open>f\<close>, then \<open>ys\<close>, where \<open>xs\<close> leave the entries \<open>pre\<close> and the
  disk \<open>fs1\<close> and the extraction of \<open>f\<close> throws. The entries collected are \<open>pre\<close>, then the
  error entry of \<open>f\<close>, then the entries of \<open>ys\<close> processed from that same disk \<open>fs1\<close>: the
  failure changes nothing for the other files. For any batch with at least one file, the
  reply is 200 with \<^verbatim>\<open>success: true\<close> and the collected entries when \<^verbatim>\<open>res.json\<close>
  returns, and the 500 of the handler's catch when it throws. So the handler answers 500
  exactly when there is at least one file and \<^verbatim>\<open>res.json\<close> throws on the collected
  entries, whatever happened to the single files.
\<close>

theorem upload_isolates_file_failures:
  "(process_files pdf xs ([], fs) = (pre, fs1) \<and> extract_content pdf fs1 f = Inl e \<longrightarrow>
      process_files pdf (xs @ f # ys) ([], fs) =
        (pre @
         [\<lparr>filename = originalname f, content = None, entry_size = None,
           error = Some ''Failed to process file''\<rparr>] @
         fst (process_files pdf ys ([], fs1)),
         snd (process_files pdf ys ([], fs1)))) \<and>
   (fl \<noteq> [] \<and>
    json (UploadBody True ''Files processed successfully''
            (fst (process_files pdf fl ([], fs)))) = None \<longrightarrow>
      upload_training_files pdf json fs (Some fl) =
        (\<lparr>status = 200,
          body = UploadBody True ''Files processed successfully''
                   (fst (process_files pdf fl ([], fs)))\<rparr>,
         snd (process_files pdf fl ([], fs)))) \<and>
   (fl \<noteq> [] \<and>
    json (UploadBody True ''Files processed successfully''
            (fst (process_files pdf fl ([], fs)))) = Some err \<longrightarrow>
      fst (upload_training_files pdf json fs (Some fl)) = upload_catch err) \<and>
   (status (fst (upload_training_files pdf json fs files)) = 500 \<longleftrightarrow>
      (\<exists>batch thrown. files = Some batch \<and> batch \<noteq> [] \<and>
         json (UploadBody True ''Files processed successfully''
                 (fst (process_files pdf batch ([], fs)))) = Some thrown))"
proof (intro conjI impI)
  let ?bad = "\<lparr>filename = originalname f, content = None, entry_size = None,
                error = Some ''Failed to process file''\<rparr>"
  assume h: "process_files pdf xs ([], fs) = (pre, fs1) \<and> extract_content pdf fs1 f = Inl e"
  have one: "process_file pdf f (pre, fs1) = (pre @ [?bad], fs1)"
    using h by (simp add: process_file_extract_fails)
  have "process_files pdf (xs @ f # ys) ([], fs) = process_files pdf ys (pre @ [?bad], fs1)"
    using h one by (simp add: process_files_append)
  also have "\<dots> = ((pre @ [?bad]) @ fst (process_files pdf ys ([], fs1)),
                     snd (process_files pdf ys ([], fs1)))"
    by (rule process_files_acc)
  finally show "process_files pdf (xs @ f # ys) ([], fs) =
      (pre @ [?bad] @ fst (process_files pdf ys ([], fs1)), snd (process_files pdf ys ([], fs1)))"
    by simp
next
  assume "fl \<noteq> [] \<and>
    json (UploadBody True ''Files processed successfully''
            (fst (process_files pdf fl ([], fs)))) = None"
  then show "upload_training_files pdf json fs (Some fl) =
        (\<lparr>status = 200,
          body = UploadBody True ''Files processed successfully''
                   (fst (process_files pdf fl ([], fs)))\<rparr>,
         snd (process_files pdf fl ([], fs)))"
    by (simp add: upload_nonempty)
next
  assume "fl \<noteq> [] \<and>
    json (UploadBody True ''Files processed successfully''
            (fst (process_files pdf fl ([], fs)))) = Some err"
  then show "fst (upload_training_files pdf json fs (Some fl)) = upload_catch err"
    by (simp add: upload_nonempty)
next
  show "status (fst (upload_training_files pdf json fs files)) = 500 \<longleftrightarrow>
      (\<exists>batch thrown. files = Some batch \<and> batch \<noteq> [] \<and>
         json (UploadBody True ''Files processed successfully''
                 (fst (process_files pdf batch ([], fs)))) = Some thrown)"
    by (auto simp: upload_status split: option.splits)
qed

theorem upload_isolates_file_failures_witness:
  "extract_content (\<lambda>b. if b = ''ok'' then Inr ''text of c'' else Inl (JsError ''Invalid PDF structure''))
     [''uploads/files-1-2.pdf'' \<mapsto> ''bad'', ''uploads/files-1-3.pdf'' \<mapsto> ''ok'']
     \<lparr>originalname = ''b.pdf'', mimetype = ''application/pdf'',
       path = ''uploads/files-1-2.pdf'', file_size = 3\<rparr> = Inl (JsError ''Invalid PDF structure'') \<and>
   fst (upload_training_files
     (\<lambda>b. if b = ''ok'' then Inr ''text of c'' else Inl (JsError ''Invalid PDF structure''))
     (\<lambda>b. None)
     [''uploads/files-1-1.doc'' \<mapsto> ''a'', ''uploads/files-1-2.pdf'' \<mapsto> ''bad'',
      ''uploads/files-1-3.pdf'' \<mapsto> ''ok'']
     (Some [\<lparr>originalname = ''a.doc'', mimetype = ''application/msword'',
              path = ''uploads/files-1-1.doc'', file_size = 1\<rparr>,
            \<lparr>originalname = ''b.pdf'', mimetype = ''application/pdf'',
              path = ''uploads/files-1-2.pdf'', file_size = 3\<rparr>,
            \<lparr>originalname = ''c.pdf'', mimetype = ''application/pdf'',
              path = ''uploads/files-1-3.pdf'', file_size = 2\<rparr>])) =
     \<lparr>status = 200,
      body = UploadBody True ''Files processed successfully''
        [\<lparr>filename = ''a.doc'', content = Some [], entry_size = Some 1, error = None\<rparr>,
         \<lparr>filename = ''b.pdf'', content = None, entry_size = None,
           error = Some ''Failed to process file''\<rparr>,
         \<lparr>filename = ''c.pdf'', content = Some ''text of c'', entry_size = Some 2,
           error = None\<rparr>]\<rparr> \<and>
   fst (upload_training_files
     (\<lambda>b. if b = ''ok'' then Inr ''text of c'' else Inl (JsError ''Invalid PDF structure''))
     (\<lambda>b. Some (JsError ''Invalid string length''))
     [''uploads/files-1-1.doc'' \<mapsto> ''a'', ''uploads/files-1-2.pdf'' \<mapsto> ''bad'',
      ''uploads/files-1-3.pdf'' \<mapsto> ''ok'']
     (Some [\<lparr>originalname = ''a.doc'', mimetype = ''application/msword'',
              path = ''uploads/files-1-1.doc'', file_size = 1\<rparr>,
            \<lparr>originalname = ''b.pdf'', mimetype = ''application/pdf'',
              path = ''uploads/files-1-2.pdf'', file_size = 3\<rparr>,
            \<lparr>originalname = ''c.pdf'', mimetype = ''application/pdf'',
              path = ''uploads/files-1-3.pdf'', file_size = 2\<rparr>])) =
     \<lparr>status = 500,
      body = ErrorBody ''Failed to process files'' (Some ''Invalid string length'')\<rparr>"
proof -
  let ?a = "\<lparr>originalname = ''a.doc'', mimetype = ''application/msword'',
              path = ''uploads/files-1-1.doc'', file_size = 1\<rparr>"
  let ?b = "\<lparr>originalname = ''b.pdf'', mimetype = ''application/pdf'',
              path = ''uploads/files-1-2.pdf'', file_size = 3\<rparr>"
  let ?c = "\<lparr>originalname = ''c.pdf'', mimetype = ''application/pdf'',
              path = ''uploads/files-1-3.pdf'', file_size = 2\<rparr>"
  let ?pdf = "\<lambda>b. if b = ''ok'' then Inr ''text of c'' else Inl (JsError ''Invalid PDF structure'')"
  let ?sent = "\<lambda>b::json_body. (None :: jserror option)"
  let ?throws = "\<lambda>b::json_body. Some (JsError ''Invalid string length'')"
  let ?fs1 = "[''uploads/files-1-2.pdf'' \<mapsto> ''bad'', ''uploads/files-1-3.pdf'' \<mapsto> ''ok'']"
  let ?fs = "[''uploads/files-1-1.doc'' \<mapsto> ''a'', ''uploads/files-1-2.pdf'' \<mapsto> ''bad'',
              ''uploads/files-1-3.pdf'' \<mapsto> ''ok'']"
  let ?ea = "\<lparr>filename = ''a.doc'', content = Some [], entry_size = Some 1, error = None\<rparr>"
  let ?eb = "\<lparr>filename = ''b.pdf'', content = None, entry_size = None,
               error = Some ''Failed to process file''\<rparr>"
  let ?ec = "\<lparr>filename = ''c.pdf'', content = Some ''text of c'', entry_size = Some 2,
               error = None\<rparr>"
  have same: "?fs(''uploads/files-1-1.doc'' := None) = ?fs1"
    by (rule ext) simp
  have first: "process_files ?pdf [?a] ([], ?fs) = ([?ea], ?fs1)"
    by (simp add: process_file_def file_try_def extract_content_def unlink_def same)
  have bad: "extract_content ?pdf ?fs1 ?b = Inl (JsError ''Invalid PDF structure'')"
    by (simp add: extract_content_def readFile_def)
  have rest: "fst (process_files ?pdf [?c] ([], ?fs1)) = [?ec]"
    by (simp add: process_file_def file_try_def extract_content_def readFile_def unlink_def)
  have entries: "fst (process_files ?pdf [?a, ?b, ?c] ([], ?fs)) = [?ea, ?eb, ?ec]"
    using upload_isolates_file_failures
      [of ?pdf "[?a]" ?fs "[?ea]" ?fs1 ?b "JsError ''Invalid PDF structure''" "[?c]"]
      first bad rest
    by simp
  have ok: "fst (upload_training_files ?pdf ?sent ?fs (Some [?a, ?b, ?c])) =
      \<lparr>status = 200, body = UploadBody True ''Files processed successfully'' [?ea, ?eb, ?ec]\<rparr>"
    using upload_isolates_file_failures
      [of ?pdf "[]" ?fs "[]" ?fs ?b "JsError ''Invalid PDF structure''" "[]"
          "[?a, ?b, ?c]" ?sent]
      entries
    by simp
  have failed: "fst (upload_training_files ?pdf ?throws ?fs (Some [?a, ?b, ?c])) =
      upload_catch (JsError ''Invalid string length'')"
    using upload_isolates_file_failures
      [of ?pdf "[]" ?fs "[]" ?fs ?b "JsError ''Invalid PDF structure''" "[]"
          "[?a, ?b, ?c]" ?throws "JsError ''Invalid string length''"]
    by simp
  show ?thesis
    using bad ok failed by (simp add: upload_catch_def)
qed

text \<open>
  C5 (missing field: 400 and no external call). A missing field reads as
  \<open>JUndefined\<close> and an empty one is \<open>JString []\<close>. With either in \<^verbatim>\<open>documentType\<close> or
  \<^verbatim>\<open>details\<close>, \<^verbatim>\<open>/generate-document\<close> answers 400 with exactly
  \<^verbatim>\<open>{error: "Document type and details are required"}\<close>; with either in \<^verbatim>\<open>message\<close>,
  \<^verbatim>\<open>/chat\<close> answers 400 with an error body; in both cases the log of calls to the
  completion service is empty.
\<close>

theorem missing_field_is_400_without_call:
  "(documentType b = JUndefined \<or> documentType b = JString [] \<or>
    details b = JUndefined \<or> details b = JString [] \<longrightarrow>
      generate_document env gen b =
        (\<lparr>status = 400, body = ErrorBody ''Document type and details are required'' None\<rparr>,
         [])) \<and>
   (message c = JUndefined \<or> message c = JString [] \<longrightarrow>
      chat env gen c = (\<lparr>status = 400, body = ErrorBody ''Message is required'' None\<rparr>, []))"
proof (intro conjI impI)
  assume "documentType b = JUndefined \<or> documentType b = JString [] \<or>
          details b = JUndefined \<or> details b = JString []"
  then have "\<not> truthy (documentType b) \<or> \<not> truthy (details b)"
    by auto
  then show "generate_document env gen b =
      (\<lparr>status = 400, body = ErrorBody ''Document type and details are required'' None\<rparr>, [])"
    by (rule generate_document_falsy)
next
  assume "message c = JUndefined \<or> message c = JString []"
  then have "\<not> truthy (message c)"
    by auto
  then show "chat env gen c =
      (\<lparr>status = 400, body = ErrorBody ''Message is required'' None\<rparr>, [])"
    by (rule chat_falsy)
qed

theorem missing_field_is_400_without_call_witness:
  "generate_document (Some ''production'') (\<lambda>p. Inr ''unused'')
     \<lparr>documentType = JUndefined, details = JUndefined\<rparr> =
     (\<lparr>status = 400, body = ErrorBody ''Document type and details are required'' None\<rparr>, []) \<and>
   generate_document (Some ''production'') (\<lambda>p. Inr ''unused'')
     \<lparr>documentType = JString ''Rental Agreement'', details = JString []\<rparr> =
     (\<lparr>status = 400, body = ErrorBody ''Document type and details are required'' None\<rparr>, []) \<and>
   chat (Some ''production'') (\<lambda>p. Inr ''unused'') \<lparr>message = JString []\<rparr> =
     (\<lparr>status = 400, body = ErrorBody ''Message is required'' None\<rparr>, [])"
  using
    missing_field_is_400_without_call
      [of "\<lparr>documentType = JUndefined, details = JUndefined\<rparr>" "Some ''production''"
          "\<lambda>p. Inr ''unused''" "\<lparr>message = JString []\<rparr>"]
    missing_field_is_400_without_call
      [of "\<lparr>documentType = JString ''Rental Agreement'', details = JString []\<rparr>"
          "Some ''production''" "\<lambda>p. Inr ''unused''" "\<lparr>message = JString []\<rparr>"]
  by simp

text \<open>
  C6 (the completion's text is returned unmodified). When the fields pass validation
  and the completion service returns \<open>text\<close> for the prompt built from them,
  \<^verbatim>\<open>/generate-document\<close> answers 200 with \<^verbatim>\<open>{document: text}\<close> and \<^verbatim>\<open>/chat\<close> answers 200
  with \<^verbatim>\<open>{response: text, status: "success"}\<close>.
\<close>

theorem completion_text_returned_unmodified:
  "(truthy (documentType b) \<and> truthy (details b) \<and>
    gen (generate_document_prompt (js_to_string (documentType b)) (js_to_string (details b)))
      = Inr text \<longrightarrow>
      fst (generate_document env gen b) = \<lparr>status = 200, body = DocumentBody text\<rparr>) \<and>
   (truthy (message c) \<and> gen (chat_prompt (js_to_string (message c))) = Inr text \<longrightarrow>
      fst (chat env gen c) = \<lparr>status = 200, body = ChatBody text ''success''\<rparr>)"
  by (simp add: generate_document_def chat_def Let_def)

theorem completion_text_returned_unmodified_witness:
  "fst (generate_document None (\<lambda>p. Inr ''  DEED of lease <b> '')
          \<lparr>documentType = JString ''Lease'', details = JString ''two parties''\<rparr>) =
     \<lparr>status = 200, body = DocumentBody ''  DEED of lease <b> ''\<rparr> \<and>
   fst (chat None (\<lambda>p. Inr ''  DEED of lease <b> '') \<lparr>message = JString ''What is Section 498A?''\<rparr>) =
     \<lparr>status = 200, body = ChatBody ''  DEED of lease <b> '' ''success''\<rparr>"
  using completion_text_returned_unmodified
    [of "\<lparr>documentType = JString ''Lease'', details = JString ''two parties''\<rparr>"
        "\<lambda>p. Inr ''  DEED of lease <b> ''" "''  DEED of lease <b> ''"
        None "\<lparr>message = JString ''What is Section 498A?''\<rparr>"]
  by simp

text \<open>
  C8 (Word files: empty content, no error). For an accepted file of a Word type whose
  try block does not throw, the step appends exactly one entry, with the file's name,
  \<^verbatim>\<open>content\<close> the empty string, the file's size and no \<^verbatim>\<open>error\<close> key, and removes the
  temp file.
\<close>

theorem word_file_content_empty_no_error:
  assumes "mimetype f = ''application/msword'' \<or>
           mimetype f = ''application/vnd.openxmlformats-officedocument.wordprocessingml.document''"
    and "fst (file_try pdf f (acc, fs)) = None"
  shows "process_file pdf f (acc, fs) =
           (acc @ [\<lparr>filename = originalname f, content = Some [],
                    entry_size = Some (file_size f), error = None\<rparr>],
            fs(path f := None))"
proof -
  from assms(1) have word: "mimetype f \<noteq> ''application/pdf''"
    by auto
  with assms(2) obtain data where "fs (path f) = Some data"
    by (auto simp: word_file_try)
  with word show ?thesis
    by (simp add: process_file_def file_try_def extract_content_def unlink_def)
qed

theorem word_file_content_empty_no_error_witness:
  "fst (file_try (\<lambda>b. Inl (JsError ''unused''))
          \<lparr>originalname = ''brief.doc'', mimetype = ''application/msword'',
            path = ''uploads/files-1-7.doc'', file_size = 4\<rparr>
          ([], [''uploads/files-1-7.doc'' \<mapsto> ''abcd''])) = None \<and>
   fst (process_file (\<lambda>b. Inl (JsError ''unused''))
          \<lparr>originalname = ''brief.doc'', mimetype = ''application/msword'',
            path = ''uploads/files-1-7.doc'', file_size = 4\<rparr>
          ([], [''uploads/files-1-7.doc'' \<mapsto> ''abcd''])) =
     [\<lparr>filename = ''brief.doc'', content = Some [], entry_size = Some 4, error = None\<rparr>] \<and>
   snd (process_file (\<lambda>b. Inl (JsError ''unused''))
          \<lparr>originalname = ''brief.doc'', mimetype = ''application/msword'',
            path = ''uploads/files-1-7.doc'', file_size = 4\<rparr>
          ([], [''uploads/files-1-7.doc'' \<mapsto> ''abcd''])) ''uploads/files-1-7.doc'' = None"
proof -
  let ?f = "\<lparr>originalname = ''brief.doc'', mimetype = ''application/msword'',
              path = ''uploads/files-1-7.doc'', file_size = 4\<rparr>"
  let ?fs = "[''uploads/files-1-7.doc'' \<mapsto> ''abcd'']"
  let ?pdf = "\<lambda>b::string. (Inl (JsError ''unused'') :: jserror + string)"
  have ok: "fst (file_try ?pdf ?f ([], ?fs)) = None"
    by (simp add: file_try_def extract_content_def unlink_def)
  have "mimetype ?f = ''application/msword'' \<or>
        mimetype ?f = ''application/vnd.openxmlformats-officedocument.wordprocessingml.document''"
    by simp
  from word_file_content_empty_no_error [OF this ok] ok show ?thesis
    by simp
qed

text \<open>
  C9 (the prompt builder is pure and deterministic, its output non-empty). Equal
  inputs give equal prompts; the prompts a handler sends for a body are the same under
  any \<^verbatim>\<open>NODE_ENV\<close> and any behaviour of the completion service; and for non-empty inputs
  the prompt is non-empty.
\<close>

theorem prompt_builder_deterministic_nonempty:
  "(dt = dt' \<and> d = d' \<longrightarrow> generate_document_prompt dt d = generate_document_prompt dt' d') \<and>
   (m = m' \<longrightarrow> chat_prompt m = chat_prompt m') \<and>
   snd (generate_document env gen b) = snd (generate_document env' gen' b) \<and>
   snd (chat env gen c) = snd (chat env' gen' c) \<and>
   (dt \<noteq> [] \<and> d \<noteq> [] \<longrightarrow> generate_document_prompt dt d \<noteq> []) \<and>
   (m \<noteq> [] \<longrightarrow> chat_prompt m \<noteq> [])"
  by (simp add: prompts_sent_generate prompts_sent_chat generate_document_prompt_nonempty
      chat_prompt_nonempty)

theorem prompt_builder_deterministic_nonempty_witness:
  "generate_document_prompt ''Will'' ''one heir'' = generate_document_prompt ''Will'' ''one heir'' \<and>
   chat_prompt ''Is bail a right?'' = chat_prompt ''Is bail a right?'' \<and>
   snd (generate_document None (\<lambda>p. Inr ''text'')
          \<lparr>documentType = JString ''Will'', details = JString ''one heir''\<rparr>) =
     snd (generate_document (Some ''development'') (\<lambda>p. Inl (JsError ''quota exceeded''))
            \<lparr>documentType = JString ''Will'', details = JString ''one heir''\<rparr>) \<and>
   snd (chat None (\<lambda>p. Inr ''text'') \<lparr>message = JString ''Is bail a right?''\<rparr>) =
     snd (chat (Some ''development'') (\<lambda>p. Inl (JsError ''quota exceeded''))
            \<lparr>message = JString ''Is bail a right?''\<rparr>) \<and>
   generate_document_prompt ''Will'' ''one heir'' \<noteq> [] \<and>
   chat_prompt ''Is bail a right?'' \<noteq> []"
  using prompt_builder_deterministic_nonempty
    [of "''Will''" "''Will''" "''one heir''" "''one heir''" "''Is bail a right?''"
        "''Is bail a right?''" None "\<lambda>p. Inr ''text''"
        "\<lparr>documentType = JString ''Will'', details = JString ''one heir''\<rparr>"
        "Some ''development''" "\<lambda>p. Inl (JsError ''quota exceeded'')"
        "\<lparr>message = JString ''Is bail a right?''\<rparr>"]
  by simp

text \<open>
  C10 (the error entry of a failed file). When the extraction throws, the file's only
  entry is \<^verbatim>\<open>{filename, error: "Failed to process file"}\<close> (\<open>process_file_extract_fails\<close>).
  When the unlink throws, the success entry is already pushed: here the per-file
  processing of a Word file fails, its temp file being gone, and what the client sees for
  the file is an entry with \<^verbatim>\<open>content\<close> and \<^verbatim>\<open>size\<close>, followed by the error entry. (The
  error entry itself never holds anything of the error, see \<open>file_catch_entry\<close>.)
\<close>

theorem failed_unlink_result_carries_content_and_size:
  "fst (file_try (\<lambda>b. Inl (JsError ''unused''))
          \<lparr>originalname = ''contract.docx'',
            mimetype = ''application/vnd.openxmlformats-officedocument.wordprocessingml.document'',
            path = ''uploads/files-1700000000001-7.docx'', file_size = 6\<rparr>
          ([], Map.empty)) =
     Some (JsError (''ENOENT: no such file or directory, unlink '' @ [CHR 0x27] @
                    ''uploads/files-1700000000001-7.docx'' @ [CHR 0x27])) \<and>
   fst (process_file (\<lambda>b. Inl (JsError ''unused''))
          \<lparr>originalname = ''contract.docx'',
            mimetype = ''application/vnd.openxmlformats-officedocument.wordprocessingml.document'',
            path = ''uploads/files-1700000000001-7.docx'', file_size = 6\<rparr>
          ([], Map.empty)) =
     [\<lparr>filename = ''contract.docx'', content = Some [], entry_size = Some 6, error = None\<rparr>,
      \<lparr>filename = ''contract.docx'', content = None, entry_size = None,
        error = Some ''Failed to process file''\<rparr>]"
  by (simp add: process_file_def file_try_def file_catch_def extract_content_def unlink_def)

end
